theory Spec2Isabelle
  imports Complex_Main
begin

section \<open>Data model of \<open>scripts/demo_cr.py\<close>\<close>

text \<open>
  The script plans once (the planner is an external collaborator), validates the chosen
  trajectory, and, with \<open>save_allFrenet_visualization = True\<close>, composes one frame per
  decision step and encodes the frames as a looping GIF. The two other export toggles are
  the constant \<open>False\<close> in the source, so only the animated export is embedded.

  Coordinates, costs and times are finite Python floats, each embedded as the rational it
  denotes. Where the script computes with them (the viewport, the direction markers) the
  arithmetic is binary64, and its results are values of \<open>f64\<close>. Python exceptions are
  values of \<open>error\<close>; a loop that may run forever yields \<open>None\<close>.
\<close>

text \<open>
  The exceptions of the run. \<open>EncodingError\<close> is the exception that the specification
  names for a failed encoding; the script defines no such class and raises it nowhere.
\<close>

datatype error = RuntimeError | ValueError | IndexError | UnboundLocalError | EncodingError

section \<open>Binary64 arithmetic\<close>

text \<open>
  IEEE 754 binary64 (Python \<open>float\<close>, numpy \<open>float64\<close>), rounding to nearest, ties to
  even. A float is the rational it denotes or one of the three special values; the two
  zeros are one value.
\<close>

datatype f64 = NaN | NegInf | Fin (fin: rat) | PosInf

text \<open>The number of binary digits of a positive integer.\<close>

function bits :: "int \<Rightarrow> int" where
  "bits n = (if n \<le> 0 then 0 else bits (n div 2) + 1)"
  by auto
termination by (relation "measure nat") auto

declare bits.simps [simp del]

text \<open>For \<open>r > 0\<close>, the exponent \<open>e\<close> with \<open>2^e \<le> r < 2^(e+1)\<close>.\<close>

definition ilog2 :: "rat \<Rightarrow> int" where
  "ilog2 r =
     (let (p, q) = quotient_of r; d = bits p - bits q
      in if 2 powi d \<le> r then d else d - 1)"

text \<open>Rounding to the nearest integer, a tie to the even neighbour.\<close>

definition round_even :: "rat \<Rightarrow> int" where
  "round_even y =
     (let f = \<lfloor>y\<rfloor>; d = y - of_int f
      in if d < 1 / 2 then f else if 1 / 2 < d then f + 1
         else if even f then f else f + 1)"

text \<open>The least magnitude that rounds to infinity.\<close>

definition huge :: rat where
  "huge = 2 ^ 1024"

text \<open>
  The binary64 value of an exact result: 53 significant bits, exponents from -1022
  (below that the spacing stays \<open>2^-1074\<close>), infinity from \<open>2^1024\<close> on.
\<close>

definition round64 :: "rat \<Rightarrow> f64" where
  "round64 r =
     (if r = 0 then Fin 0
      else
        let e = max (ilog2 \<bar>r\<bar>) (- 1022);
            ulp = 2 powi (e - 52);
            v = of_int (round_even (r / ulp)) * ulp
        in if huge \<le> \<bar>v\<bar> then (if 0 < r then PosInf else NegInf) else Fin v)"


fun fneg :: "f64 \<Rightarrow> f64" where
  "fneg NaN = NaN"
| "fneg NegInf = PosInf"
| "fneg PosInf = NegInf"
| "fneg (Fin a) = Fin (- a)"

text \<open>\<open>a + b\<close>, \<open>a - b\<close> and \<open>a / 2\<close>.\<close>

fun fadd :: "f64 \<Rightarrow> f64 \<Rightarrow> f64" where
  "fadd (Fin a) (Fin b) = round64 (a + b)"
| "fadd NaN b = NaN"
| "fadd a NaN = NaN"
| "fadd PosInf NegInf = NaN"
| "fadd NegInf PosInf = NaN"
| "fadd PosInf b = PosInf"
| "fadd a PosInf = PosInf"
| "fadd NegInf b = NegInf"
| "fadd a NegInf = NegInf"

definition fsub :: "f64 \<Rightarrow> f64 \<Rightarrow> f64" where
  "fsub a b = fadd a (fneg b)"

fun fhalf :: "f64 \<Rightarrow> f64" where
  "fhalf (Fin a) = round64 (a / 2)"
| "fhalf a = a"

text \<open>\<open>a < b\<close> and \<open>a == b\<close>: false whenever an operand is not a number.\<close>

fun flt :: "f64 \<Rightarrow> f64 \<Rightarrow> bool" where
  "flt (Fin a) (Fin b) = (a < b)"
| "flt NegInf (Fin b) = True"
| "flt NegInf PosInf = True"
| "flt (Fin a) PosInf = True"
| "flt a b = False"

fun feq :: "f64 \<Rightarrow> f64 \<Rightarrow> bool" where
  "feq (Fin a) (Fin b) = (a = b)"
| "feq NegInf NegInf = True"
| "feq PosInf PosInf = True"
| "feq a b = False"

text \<open>\<open>max(a, b)\<close> of two arguments: the first unless the second is greater.\<close>

definition fmax :: "f64 \<Rightarrow> f64 \<Rightarrow> f64" where
  "fmax a b = (if flt a b then b else a)"

section \<open>Scenario, plan and drawing\<close>

text \<open>A trajectory state; the script reads nothing but \<open>state.position\<close>.\<close>

record state =
  position :: "rat \<times> rat"

text \<open>One sampled candidate of the planner (an element of \<open>fplist[i]\<close>).\<close>

record frenet_path =
  fp_x :: "rat list"
  fp_y :: "rat list"
  cost_final :: rat

text \<open>A dynamic obstacle, seen through \<open>obs.state_at_time(t)\<close>.\<close>

type_synonym obstacle = "nat \<Rightarrow> state option"

text \<open>
  What the script reads of a scenario: the collision objects that
  \<open>create_collision_checker(scenario)\<close> registers, the obstacle that
  \<open>create_road_boundary_obstacle(scenario)\<close> derives, and \<open>scenario.dynamic_obstacles\<close>.
\<close>

record 'o scenario =
  collision_objects :: "'o list"
  road_boundary :: 'o
  dynamic_obstacles :: "obstacle list"

text \<open>The values returned by \<open>planning(...)\<close> that the script uses.\<close>

record planner_result =
  ego_vehicle_trajectory :: "state list option"
  time_list :: "rat list"
  fplist :: "frenet_path list list"

text \<open>
  The external collaborators of the validation gate: the pairwise test of the collision
  engine, \<open>create_collision_object\<close> applied to the ego vehicle, and the verdict of
  \<open>trajectory_feasibility\<close>.
\<close>

record 'o collaborators =
  hit :: "'o \<Rightarrow> 'o \<Rightarrow> bool"
  create_collision_object :: "state list \<Rightarrow> 'o"
  trajectory_feasibility :: "state list \<Rightarrow> bool"

subsection \<open>What is drawn\<close>

record line_collection =
  segments :: "(rat \<times> rat) list list"
  array :: "rat list"

record quiver =
  quiver_x :: "rat list"
  quiver_y :: "rat list"
  quiver_u :: "f64 list"
  quiver_v :: "f64 list"

record viewport =
  xlim :: "f64 \<times> f64"
  ylim :: "f64 \<times> f64"

record obstacle_drawing =
  obs_quiver_past :: quiver
  obs_quiver_future :: quiver
  obs_plot_past :: "rat list \<times> rat list"
  obs_plot_future :: "rat list \<times> rat list"

record title =
  title_method :: string
  title_n :: nat
  title_time :: rat

record frame =
  time_begin :: nat
  overlay :: line_collection
  colorbar :: "(rat \<times> rat) option"
  ego_past :: "rat list \<times> rat list"
  ego_future :: "rat list \<times> rat list"
  ego_quiver :: quiver
  view :: viewport
  obstacles :: "obstacle_drawing list"
  frame_title :: title

record animation =
  gif_frames :: "frame list"
  duration :: nat
  loop :: nat

record validation_result =
  res_collision :: bool
  res_outofbound :: bool
  feasible :: bool

text \<open>
  What a finished run holds in its local variables: the three verdicts of the validation
  gate, the animation written, and the time list as the frame loop leaves it.
\<close>

record run_output =
  validation :: validation_result
  gif :: animation
  final_time_list :: "rat list"

section \<open>Python and numpy helpers\<close>

text \<open>\<open>min(vs)\<close> and \<open>max(vs)\<close>: \<open>ValueError\<close> on an empty sequence.\<close>

definition py_min :: "rat list \<Rightarrow> error + rat" where
  "py_min vs = (case vs of [] \<Rightarrow> Inl ValueError | v # r \<Rightarrow> Inr (fold min r v))"

definition py_max :: "rat list \<Rightarrow> error + rat" where
  "py_max vs = (case vs of [] \<Rightarrow> Inl ValueError | v # r \<Rightarrow> Inr (fold max r v))"

text \<open>\<open>np.diff(vs)\<close>: the differences of neighbours, empty for fewer than two values.\<close>

definition np_diff :: "rat list \<Rightarrow> f64 list" where
  "np_diff vs = map (\<lambda>(a, b). fsub (Fin b) (Fin a)) (zip vs (tl vs))"

text \<open>The slice \<open>vs[::5]\<close>.\<close>

fun every5 :: "'a list \<Rightarrow> 'a list" where
  "every5 [] = []"
| "every5 (v # vs) = v # every5 (drop 4 vs)"

text \<open>\<open>np.column_stack([a, b])\<close> of two one-dimensional arrays: they must agree in length.\<close>

definition column_stack :: "rat list \<Rightarrow> rat list \<Rightarrow> error + (rat \<times> rat) list" where
  "column_stack a b = (if length a = length b then Inr (zip a b) else Inl ValueError)"

text \<open>The list comprehension of \<open>multiline\<close>: the first failing element raises.\<close>

fun stack_all :: "(rat list \<times> rat list) list \<Rightarrow> error + (rat \<times> rat) list list" where
  "stack_all [] = Inr []"
| "stack_all ((a, b) # ps) =
     (case column_stack a b of
        Inl e \<Rightarrow> Inl e
      | Inr s \<Rightarrow> (case stack_all ps of Inl e \<Rightarrow> Inl e | Inr ss \<Rightarrow> Inr (s # ss)))"

text \<open>\<open>round(v, 3)\<close>: to three decimals, ties to the even neighbour.\<close>

definition round3 :: "rat \<Rightarrow> rat" where
  "round3 v =
     (let y = v * 1000; f = \<lfloor>y\<rfloor>; d = y - of_int f
      in of_int (if d < 1 / 2 then f else if 1 / 2 < d then f + 1
                 else if even f then f else f + 1) / 1000)"

section \<open>Multi-path colorizer\<close>

text \<open>
  \<open>multiline(xs, ys, c, ...)\<close>: one segment per pair of \<open>zip(xs, ys)\<close>, the scalar array set
  to \<open>c\<close>. The keyword arguments of the only call (\<open>cmap\<close>, \<open>lw\<close>, \<open>zorder\<close>) fix the
  styling and hold no data.
\<close>

definition multiline :: "rat list list \<Rightarrow> rat list list \<Rightarrow> rat list \<Rightarrow> error + line_collection" where
  "multiline xs ys c =
     (case stack_all (zip xs ys) of
        Inl e \<Rightarrow> Inl e
      | Inr segs \<Rightarrow> Inr \<lparr>segments = segs, array = c\<rparr>)"

text \<open>
  Modelled from the spec: the colour limits that the plotting library (matplotlib, not part
  of this repository) derives for a collection created without an explicit norm. The spec
  says the shared colormap spans "the minimum and maximum cost values observed in that
  call" and the colorbar is "keyed to that frame's local min/max cost". A collection with
  no scalar has no limits.
\<close>

definition clim :: "line_collection \<Rightarrow> (rat \<times> rat) option" where
  "clim lc =
     (case array lc of
        [] \<Rightarrow> None
      | v # r \<Rightarrow> Some (fold min r v, fold max r v))"

text \<open>
  Modelled from the spec: the position of path \<open>j\<close> on the shared colormap, its scalar
  normalised linearly between the colour limits (matplotlib's default norm; a degenerate
  range maps to 0).
\<close>

definition color_value :: "line_collection \<Rightarrow> nat \<Rightarrow> rat option" where
  "color_value lc j =
     (case clim lc of
        None \<Rightarrow> None
      | Some (vmin, vmax) \<Rightarrow>
          if length (array lc) \<le> j then None
          else if vmin = vmax then Some 0
          else Some ((array lc ! j - vmin) / (vmax - vmin)))"

section \<open>Frame composer\<close>

text \<open>
  The viewport of lines 260 to 275, from the coordinates of the whole ego trajectory, in
  the script's binary64 arithmetic (\<open>8\<close> and \<open>2\<close> are exact floats).
\<close>

definition set_viewport :: "rat list \<Rightarrow> rat list \<Rightarrow> error + viewport" where
  "set_viewport x_coords y_coords =
     (case py_min x_coords of Inl e \<Rightarrow> Inl e | Inr mnx \<Rightarrow>
     (case py_max x_coords of Inl e \<Rightarrow> Inl e | Inr mxx \<Rightarrow>
     (case py_min y_coords of Inl e \<Rightarrow> Inl e | Inr mny \<Rightarrow>
     (case py_max y_coords of Inl e \<Rightarrow> Inl e | Inr mxy \<Rightarrow>
        (let x_min = fsub (Fin mnx) (Fin 8); x_max = fadd (Fin mxx) (Fin 8);
             y_min = fsub (Fin mny) (Fin 8); y_max = fadd (Fin mxy) (Fin 8);
             l = fmax (fsub x_max x_min) (fsub y_max y_min)
         in Inr (if feq l (fsub x_max x_min)
                 then \<lparr>xlim = (x_min, x_max),
                       ylim = (fsub y_min (fhalf (fsub l (fsub y_max y_min))),
                               fadd y_max (fhalf (fsub l (fsub y_max y_min))))\<rparr>
                 else \<lparr>xlim = (fsub x_min (fhalf (fsub l (fsub x_max x_min))),
                               fadd x_max (fhalf (fsub l (fsub x_max x_min)))),
                       ylim = (y_min, y_max)\<rparr>))))))"


text \<open>The coordinate lists of lines 248 and 249.\<close>

abbreviation x_coords_of :: "state list \<Rightarrow> rat list" where
  "x_coords_of state_list \<equiv> map (\<lambda>s. fst (position s)) state_list"

abbreviation y_coords_of :: "state list \<Rightarrow> rat list" where
  "y_coords_of state_list \<equiv> map (\<lambda>s. snd (position s)) state_list"

text \<open>
  The probing loop of lines 278 to 284. \<open>queried\<close> is a ghost log of the arguments of every
  call of \<open>state_at_time\<close>, in call order: one call in the loop condition and two in the
  body. An obstacle with a state at every index makes the loop run forever (\<open>None\<close>).
\<close>

partial_function (option) probe ::
  "obstacle \<Rightarrow> nat \<Rightarrow> rat list \<Rightarrow> rat list \<Rightarrow> nat list
     \<Rightarrow> (rat list \<times> rat list \<times> nat list) option"
where
  "probe obs t obs_traj_x obs_traj_y queried =
     (case obs t of
        None \<Rightarrow> Some (obs_traj_x, obs_traj_y, queried @ [t])
      | Some s \<Rightarrow>
          probe obs (t + 1)
            (obs_traj_x @ [fst (position s)])
            (obs_traj_y @ [snd (position s)])
            (queried @ [t, t, t]))"

declare probe.simps [code]

text \<open>Lines 277 to 292 for one obstacle, at decision step \<open>i\<close>.\<close>

definition draw_obstacle :: "nat \<Rightarrow> obstacle \<Rightarrow> obstacle_drawing option" where
  "draw_obstacle i obs =
     (case probe obs 0 [] [] [] of
        None \<Rightarrow> None
      | Some (traj_x, traj_y, queried) \<Rightarrow>
          (let dx = np_diff traj_x; dy = np_diff traj_y;
               obs_traj_x = butlast traj_x; obs_traj_y = butlast traj_y
           in Some \<lparr>obs_quiver_past =
                      \<lparr>quiver_x = every5 (take i obs_traj_x), quiver_y = every5 (take i obs_traj_y),
                       quiver_u = every5 (take i dx), quiver_v = every5 (take i dy)\<rparr>,
                    obs_quiver_future =
                      \<lparr>quiver_x = every5 (drop i obs_traj_x), quiver_y = every5 (drop i obs_traj_y),
                       quiver_u = every5 (drop i dx), quiver_v = every5 (drop i dy)\<rparr>,
                    obs_plot_past = (take i obs_traj_x, take i obs_traj_y),
                    obs_plot_future = (drop i obs_traj_x, drop i obs_traj_y)\<rparr>))"

fun draw_obstacles :: "nat \<Rightarrow> obstacle list \<Rightarrow> obstacle_drawing list option" where
  "draw_obstacles i [] = Some []"
| "draw_obstacles i (obs # rest) =
     (case draw_obstacle i obs of
        None \<Rightarrow> None
      | Some d \<Rightarrow> (case draw_obstacles i rest of None \<Rightarrow> None | Some ds \<Rightarrow> Some (d # ds)))"

text \<open>
  The body of the loop of lines 226 to 310 at index \<open>i\<close>, started with the time list
  \<open>tlist\<close>. The result is \<open>None\<close> when an obstacle loop never ends; otherwise the frame or
  the exception raised, with the time list as the body leaves it. \<open>fplist[i]\<close> outside the
  list is \<open>IndexError\<close> (the loop itself never asks for it).
\<close>

definition compose_frame ::
  "'o scenario \<Rightarrow> state list \<Rightarrow> frenet_path list list \<Rightarrow> nat \<Rightarrow> rat list
     \<Rightarrow> ((error + frame) \<times> rat list) option"
where
  "compose_frame sc state_list fpl i tlist =
     (if length fpl \<le> i then Some (Inl IndexError, tlist)
      else
        let fps = fpl ! i;
            costs = map cost_final fps;
            xs = map (\<lambda>fp. tl (fp_x fp)) fps;
            ys = map (\<lambda>fp. tl (fp_y fp)) fps
        in case multiline xs ys costs of
             Inl e \<Rightarrow> Some (Inl e, tlist)
           | Inr lc \<Rightarrow>
               (let x_coords = map (\<lambda>s. fst (position s)) state_list;
                    y_coords = map (\<lambda>s. snd (position s)) state_list;
                    x_coords_p = map (\<lambda>s. fst (position s)) (take i state_list);
                    y_coords_p = map (\<lambda>s. snd (position s)) (take i state_list);
                    x_coords_f = map (\<lambda>s. fst (position s)) (drop i state_list);
                    y_coords_f = map (\<lambda>s. snd (position s)) (drop i state_list);
                    dx_ego_f = np_diff x_coords_f;
                    dy_ego_f = np_diff y_coords_f
                in case set_viewport x_coords y_coords of
                     Inl e \<Rightarrow> Some (Inl e, tlist)
                   | Inr vp \<Rightarrow>
                       (case draw_obstacles i (dynamic_obstacles sc) of
                          None \<Rightarrow> None
                        | Some ods \<Rightarrow>
                            (let tlist' = tlist @ [0]
                             in if length tlist' \<le> i then Some (Inl IndexError, tlist')
                                else Some (Inr \<lparr>time_begin = i,
                                                overlay = lc,
                                                colorbar = clim lc,
                                                ego_past = (x_coords_p, y_coords_p),
                                                ego_future = (x_coords_f, y_coords_f),
                                                ego_quiver =
                                                  \<lparr>quiver_x = every5 (butlast x_coords_f),
                                                   quiver_y = every5 (butlast y_coords_f),
                                                   quiver_u = every5 dx_ego_f,
                                                   quiver_v = every5 dy_ego_f\<rparr>,
                                                view = vp,
                                                obstacles = ods,
                                                frame_title =
                                                  \<lparr>title_method = ''FISS+'',
                                                   title_n = length fps,
                                                   title_time = round3 (tlist' ! i)\<rparr>\<rparr>,
                                          tlist')))))"

text \<open>
  The loop \<open>for i in range(len(fplist))\<close>, over the remaining indices: every frame is
  saved, read back and appended to \<open>images\<close>; an exception ends the loop.
\<close>

fun compose_frames ::
  "'o scenario \<Rightarrow> state list \<Rightarrow> frenet_path list list \<Rightarrow> nat list \<Rightarrow> rat list \<Rightarrow> frame list
     \<Rightarrow> ((error + frame list) \<times> rat list) option"
where
  "compose_frames sc state_list fpl [] tlist images = Some (Inr images, tlist)"
| "compose_frames sc state_list fpl (i # rest) tlist images =
     (case compose_frame sc state_list fpl i tlist of
        None \<Rightarrow> None
      | Some (Inl e, tlist') \<Rightarrow> Some (Inl e, tlist')
      | Some (Inr f, tlist') \<Rightarrow> compose_frames sc state_list fpl rest tlist' (images @ [f]))"

section \<open>Animation encoder\<close>

text \<open>
  Modelled from the spec: the artefact that the imaging library (Pillow, not part of this
  repository) writes for line 317, \<open>images[0].save(..., save_all=True,
  append_images=images[1:], duration=100, loop=0)\<close>. The spec says "encoding
  concatenates frames in strictly increasing index order; the animation loops
  indefinitely at a fixed per-frame duration": the artefact holds the first image followed
  by \<open>append_images\<close>, the duration in milliseconds and the loop count (0 repeats
  forever). \<open>images[0]\<close> of an empty list is Python's \<open>IndexError\<close>.
\<close>

definition save_gif :: "frame list \<Rightarrow> error + animation" where
  "save_gif images =
     (case images of
        [] \<Rightarrow> Inl IndexError
      | first # append_images \<Rightarrow>
          Inr \<lparr>gif_frames = first # append_images, duration = 100, loop = 0\<rparr>)"

section \<open>Validation gate\<close>

text \<open>
  Modelled from the spec: the collision checker of the collision engine (commonroad_dc, not
  part of this repository) and its three operations. The spec calls it "a collision
  structure" that holds "the scenario's registered obstacles" and to which the road
  boundary is "added", the later state including the earlier one: the checker is the list
  of the objects it holds, and a query reports whether the queried object hits any of
  them. The pairwise test is a parameter.
\<close>

record 'o collision_checker =
  objects :: "'o list"

definition create_collision_checker :: "'o scenario \<Rightarrow> 'o collision_checker" where
  "create_collision_checker sc = \<lparr>objects = collision_objects sc\<rparr>"

definition add_collision_object :: "'o collision_checker \<Rightarrow> 'o \<Rightarrow> 'o collision_checker" where
  "add_collision_object cc ob = cc\<lparr>objects := objects cc @ [ob]\<rparr>"

definition collide :: "('o \<Rightarrow> 'o \<Rightarrow> bool) \<Rightarrow> 'o collision_checker \<Rightarrow> 'o \<Rightarrow> bool" where
  "collide h cc co = list_ex (\<lambda>ob. h ob co) (objects cc)"

text \<open>Lines 104 to 133: two collision queries on the one checker, then feasibility.\<close>

definition validate :: "'o collaborators \<Rightarrow> 'o scenario \<Rightarrow> state list \<Rightarrow> validation_result" where
  "validate ext sc state_list =
     (let cc = create_collision_checker sc;
          ego_vehicle_co = create_collision_object ext state_list;
          res1 = collide (hit ext) cc ego_vehicle_co;
          cc' = add_collision_object cc (road_boundary sc);
          res2 = collide (hit ext) cc' ego_vehicle_co
      in \<lparr>res_collision = res1, res_outofbound = res2,
          feasible = trajectory_feasibility ext state_list\<rparr>)"

section \<open>The scenario run\<close>

text \<open>
  The body of the \<open>try\<close> block, with the lines it prints on the way to a \<open>RuntimeError\<close>
  (the messages about created directories and saved files depend on the file system and
  are left out). The local variable \<open>scenario_id\<close> is assigned in the body of the frame
  loop only (line 296), so line 316 reads it unbound when the loop had no iteration.
\<close>

definition try_body ::
  "'o collaborators \<Rightarrow> 'o scenario \<Rightarrow> planner_result \<Rightarrow> (string list \<times> (error + run_output)) option"
where
  "try_body ext sc plan =
     (case ego_vehicle_trajectory plan of
        None \<Rightarrow> Some ([''No ego vehicle trajectory found''], Inl RuntimeError)
      | Some state_list \<Rightarrow>
          (let v = validate ext sc state_list
           in case compose_frames sc state_list (fplist plan) [0..<length (fplist plan)]
                     (time_list plan) [] of
                None \<Rightarrow> None
              | Some (Inl e, tlist') \<Rightarrow> Some ([], Inl e)
              | Some (Inr images, tlist') \<Rightarrow>
                  (case (if fplist plan = [] then None else Some ''DEU_Flensburg-1_1_T-1'') of
                     None \<Rightarrow> Some ([], Inl UnboundLocalError)
                   | Some scenario_id \<Rightarrow>
                       (case save_gif images of
                          Inl e \<Rightarrow> Some ([], Inl e)
                        | Inr g \<Rightarrow> Some ([], Inr \<lparr>validation = v, gif = g,
                                                  final_time_list = tlist'\<rparr>)))))"

text \<open>
  \<open>planning_example\<close>: \<open>except RuntimeError\<close> prints and returns; any other exception
  leaves the function. \<open>Inr None\<close> is the return after the handler.
\<close>

definition planning_example ::
  "'o collaborators \<Rightarrow> 'o scenario \<Rightarrow> planner_result
     \<Rightarrow> (string list \<times> (error + run_output option)) option"
where
  "planning_example ext sc plan =
     (case try_body ext sc plan of
        None \<Rightarrow> None
      | Some (out, Inl RuntimeError) \<Rightarrow>
          Some (out @ [''    DEU_Flensburg-1_1_T-1.xml not feasible, proceding to next file!''],
                Inr None)
      | Some (out, Inl ValueError) \<Rightarrow> Some (out, Inl ValueError)
      | Some (out, Inl IndexError) \<Rightarrow> Some (out, Inl IndexError)
      | Some (out, Inl UnboundLocalError) \<Rightarrow> Some (out, Inl UnboundLocalError)
      | Some (out, Inl EncodingError) \<Rightarrow> Some (out, Inl EncodingError)
      | Some (out, Inr r) \<Rightarrow> Some (out, Inr (Some r)))"

section \<open>Concrete inputs\<close>

definition st :: "rat \<Rightarrow> rat \<Rightarrow> state" where
  "st a b = \<lparr>position = (a, b)\<rparr>"

definition demo_trajectory :: "state list" where
  "demo_trajectory = [st 0 0, st 10 2, st 20 4]"



definition demo_path_a :: frenet_path where
  "demo_path_a = \<lparr>fp_x = [0, 5, 10], fp_y = [0, 1, 2], cost_final = 1\<rparr>"

definition demo_path_b :: frenet_path where
  "demo_path_b = \<lparr>fp_x = [0, 6], fp_y = [0, 3], cost_final = 5\<rparr>"

definition demo_fplist :: "frenet_path list list" where
  "demo_fplist = [ [demo_path_a, demo_path_b], [demo_path_b]]"

definition demo_obstacle :: obstacle where
  "demo_obstacle = (\<lambda>t. if t < 3 then Some (st (of_nat t) 7) else None)"

definition demo_scenario :: "nat scenario" where
  "demo_scenario = \<lparr>collision_objects = [1, 2], road_boundary = 0,
                    dynamic_obstacles = [demo_obstacle]\<rparr>"

definition demo_ext :: "nat collaborators" where
  "demo_ext = \<lparr>hit = (\<lambda>ob co. ob = co), create_collision_object = (\<lambda>sl. length sl - 1),
               trajectory_feasibility = (\<lambda>sl. False)\<rparr>"

definition demo_plan :: planner_result where
  "demo_plan = \<lparr>ego_vehicle_trajectory = Some demo_trajectory, time_list = [],
                fplist = demo_fplist\<rparr>"

definition demo_frame0 :: frame where
  "demo_frame0 =
     \<lparr>time_begin = 0,
      overlay = \<lparr>segments = [ [(5, 1), (10, 2)], [(6, 3)]], array = [1, 5]\<rparr>,
      colorbar = Some (1, 5),
      ego_past = ([], []),
      ego_future = ([0, 10, 20], [0, 2, 4]),
      ego_quiver = \<lparr>quiver_x = [0], quiver_y = [0], quiver_u = [Fin 10], quiver_v = [Fin 2]\<rparr>,
      view = \<lparr>xlim = (Fin (- 8), Fin 28), ylim = (Fin (- 16), Fin 20)\<rparr>,
      obstacles =
        [\<lparr>obs_quiver_past = \<lparr>quiver_x = [], quiver_y = [], quiver_u = [], quiver_v = []\<rparr>,
          obs_quiver_future = \<lparr>quiver_x = [0], quiver_y = [7], quiver_u = [Fin 1], quiver_v = [Fin 0]\<rparr>,
          obs_plot_past = ([], []),
          obs_plot_future = ([0, 1], [7, 7])\<rparr>],
      frame_title = \<lparr>title_method = ''FISS+'', title_n = 2, title_time = 0\<rparr>\<rparr>"

definition demo_frame1 :: frame where
  "demo_frame1 =
     \<lparr>time_begin = 1,
      overlay = \<lparr>segments = [ [(6, 3)]], array = [5]\<rparr>,
      colorbar = Some (5, 5),
      ego_past = ([0], [0]),
      ego_future = ([10, 20], [2, 4]),
      ego_quiver = \<lparr>quiver_x = [10], quiver_y = [2], quiver_u = [Fin 10], quiver_v = [Fin 2]\<rparr>,
      view = \<lparr>xlim = (Fin (- 8), Fin 28), ylim = (Fin (- 16), Fin 20)\<rparr>,
      obstacles =
        [\<lparr>obs_quiver_past = \<lparr>quiver_x = [0], quiver_y = [7], quiver_u = [Fin 1], quiver_v = [Fin 0]\<rparr>,
          obs_quiver_future = \<lparr>quiver_x = [1], quiver_y = [7], quiver_u = [Fin 1], quiver_v = [Fin 0]\<rparr>,
          obs_plot_past = ([0], [7]),
          obs_plot_future = ([1], [7])\<rparr>],
      frame_title = \<lparr>title_method = ''FISS+'', title_n = 1, title_time = 0\<rparr>\<rparr>"



section \<open>Basic facts\<close>

lemma huge_numeral [code]:
  "huge = 179769313486231590772930519078902473361797697894230657273430081157732675805500963132708477322407536021120113879871393357658789768814416622492847430639474124377767893424865485276302219601246094119453082952085005768838150682342462881473913110540827237163350510684586298239947245938479716304835356329624224137216"
  by (simp add: huge_def)

lemma probe_stop:
  "obs t = None \<Longrightarrow> probe obs t tx ty qs = Some (tx, ty, qs @ [t])"
  by (subst probe.simps) simp

lemma probe_step:
  "obs t = Some s \<Longrightarrow>
     probe obs t tx ty qs =
       probe obs (Suc t) (tx @ [fst (position s)]) (ty @ [snd (position s)]) (qs @ [t, t, t])"
  by (subst probe.simps) simp

section \<open>Obstacle probing\<close>

lemma probe_from:
  assumes "\<forall>t<k. obs t \<noteq> None" and "obs k = None"
  shows "j \<le> k \<Longrightarrow>
     probe obs j tx ty qs =
       Some (tx @ map (\<lambda>t. fst (position (the (obs t)))) [j..<k],
             ty @ map (\<lambda>t. snd (position (the (obs t)))) [j..<k],
             qs @ concat (map (\<lambda>t. [t, t, t]) [j..<k]) @ [k])"
proof (induction "k - j" arbitrary: j tx ty qs)
  case 0
  then have "j = k" by simp
  then show ?case using assms(2) by (simp add: probe_stop)
next
  case (Suc n)
  then have lt: "j < k" and le: "Suc j \<le> k" and n: "n = k - Suc j" by simp_all
  from lt assms(1) obtain s where s: "obs j = Some s" by auto
  have up: "[j..<k] = j # [Suc j..<k]" using lt by (simp add: upt_conv_Cons)
  show ?case
    using Suc.hyps(1)[OF n le] s by (simp add: probe_step up)
qed

lemma query_log_sorted: "sorted (concat (map (\<lambda>t. [t, t, t]) [j..<k]) @ [k])"
proof (induction "k - j" arbitrary: j)
  case 0
  then show ?case by simp
next
  case (Suc n)
  then have lt: "j < k" and n: "n = k - Suc j" by simp_all
  have up: "[j..<k] = j # [Suc j..<k]" using lt by (simp add: upt_conv_Cons)
  show ?case using Suc.hyps(1)[OF n] lt by (auto simp: up)
qed

text \<open>
  C9. For an obstacle whose state query answers exactly at the indices \<open>0..k-1\<close>, the
  probing loop returns: it collects the \<open>k\<close> points of the indices \<open>0..k-1\<close> in index
  order, its queries are made in non-decreasing index order, the last one is the query of
  index \<open>k\<close>, and no index above \<open>k\<close> is ever queried.
\<close>

theorem probe_terminates:
  assumes "\<forall>t. (obs t \<noteq> None) = (t < k)"
  shows "\<exists>tx ty qs. probe obs 0 [] [] [] = Some (tx, ty, qs)
           \<and> tx = map (\<lambda>t. fst (position (the (obs t)))) [0..<k]
           \<and> ty = map (\<lambda>t. snd (position (the (obs t)))) [0..<k]
           \<and> length tx = k \<and> length ty = k
           \<and> qs = concat (map (\<lambda>t. [t, t, t]) [0..<k]) @ [k]
           \<and> last qs = k \<and> (\<forall>q \<in> set qs. q \<le> k) \<and> sorted qs"
proof -
  have a: "\<forall>t<k. obs t \<noteq> None" and b: "obs k = None" using assms by auto
  show ?thesis
    using probe_from[OF a b, of 0 "[]" "[]" "[]"] query_log_sorted[of 0 k] by auto
qed

theorem probe_terminates_witness:
  "(\<forall>t. (demo_obstacle t \<noteq> None) = (t < 3))
   \<and> probe demo_obstacle 0 [] [] [] =
       Some ([0, 1, 2], [7, 7, 7], [0, 0, 0, 1, 1, 1, 2, 2, 2, 3])"
proof -
  have h: "\<forall>t. (demo_obstacle t \<noteq> None) = (t < 3)" by (simp add: demo_obstacle_def)
  have e: "[0..<3] = [0, 1, 2]" by (simp add: upt_rec)
  show ?thesis using h probe_terminates[OF h]
    by (simp add: e demo_obstacle_def st_def)
qed

section \<open>The concrete run, evaluated\<close>

lemma demo_compose0:
  "compose_frame demo_scenario demo_trajectory demo_fplist 0 [] = Some (Inr demo_frame0, [0])"
  by code_simp

lemma demo_compose1:
  "compose_frame demo_scenario demo_trajectory demo_fplist 1 [0] = Some (Inr demo_frame1, [0, 0])"
  by code_simp

lemma demo_compose1_alone:
  "compose_frame demo_scenario demo_trajectory demo_fplist 1 [] = Some (Inl IndexError, [0])"
  by code_simp

section \<open>What a composed frame holds\<close>

lemma compose_frameD:
  assumes "compose_frame sc sl fpl i tlist = Some (Inr f, tlist')"
  shows "i < length fpl" and "tlist' = tlist @ [0]" and "i < length tlist'"
    and "time_begin f = i"
    and "multiline (map (\<lambda>fp. tl (fp_x fp)) (fpl ! i)) (map (\<lambda>fp. tl (fp_y fp)) (fpl ! i))
           (map cost_final (fpl ! i)) = Inr (overlay f)"
    and "colorbar f = clim (overlay f)"
    and "ego_past f = (map (\<lambda>s. fst (position s)) (take i sl), map (\<lambda>s. snd (position s)) (take i sl))"
    and "ego_future f = (map (\<lambda>s. fst (position s)) (drop i sl), map (\<lambda>s. snd (position s)) (drop i sl))"
    and "set_viewport (map (\<lambda>s. fst (position s)) sl) (map (\<lambda>s. snd (position s)) sl) = Inr (view f)"
    and "draw_obstacles i (dynamic_obstacles sc) = Some (obstacles f)"
    and "frame_title f = \<lparr>title_method = ''FISS+'', title_n = length (fpl ! i),
                          title_time = round3 (tlist' ! i)\<rparr>"
  using assms
  by (auto simp: compose_frame_def Let_def split: if_splits sum.splits option.splits)

lemma stack_allD:
  "stack_all ps = Inr ss \<Longrightarrow>
     ss = map (\<lambda>(a, b). zip a b) ps \<and> (\<forall>(a, b) \<in> set ps. length a = length b)"
  by (induction ps arbitrary: ss rule: stack_all.induct)
     (auto simp: column_stack_def split: sum.splits if_splits)

lemma multilineD:
  assumes "multiline xs ys c = Inr lc"
  shows "segments lc = map (\<lambda>(a, b). zip a b) (zip xs ys)" and "array lc = c"
  using assms stack_allD[of "zip xs ys"]
  by (auto simp: multiline_def split: sum.splits)

lemma zip_same_maps: "zip (map g vs) (map h vs) = map (\<lambda>v. (g v, h v)) vs"
  by (induction vs) simp_all

lemma overlay_segments:
  assumes "compose_frame sc sl fpl t tlist = Some (Inr f, tlist')"
  shows "segments (overlay f) = map (\<lambda>fp. zip (tl (fp_x fp)) (tl (fp_y fp))) (fpl ! t)"
    and "array (overlay f) = map cost_final (fpl ! t)"
  using multilineD[OF compose_frameD(5)[OF assms]]
  by (simp_all add: zip_same_maps)

section \<open>Viewport\<close>

lemma fold_min_Min: "fold min r (v::rat) = Min (set (v # r))"
  by (simp only: Min.set_eq_fold)

lemma fold_max_Max: "fold max r (v::rat) = Max (set (v # r))"
  by (simp only: Max.set_eq_fold)

lemma py_min_total: "vs \<noteq> [] \<Longrightarrow> py_min vs = Inr (Min (set vs))"
  by (cases vs) (simp_all add: py_min_def fold_min_Min del: set_simps)

lemma py_max_total: "vs \<noteq> [] \<Longrightarrow> py_max vs = Inr (Max (set vs))"
  by (cases vs) (simp_all add: py_max_def fold_max_Max del: set_simps)

lemma py_min_Inr: "py_min vs = Inr m \<Longrightarrow> vs \<noteq> [] \<and> m = Min (set vs)"
  by (cases vs) (simp_all add: py_min_def fold_min_Min del: set_simps)

lemma py_max_Inr: "py_max vs = Inr m \<Longrightarrow> vs \<noteq> [] \<and> m = Max (set vs)"
  by (cases vs) (simp_all add: py_max_def fold_max_Max del: set_simps)

lemma set_viewport_unfold:
  assumes "xs \<noteq> []" and "ys \<noteq> []"
  shows "set_viewport xs ys =
     Inr (let x_min = fsub (Fin (Min (set xs))) (Fin 8); x_max = fadd (Fin (Max (set xs))) (Fin 8);
              y_min = fsub (Fin (Min (set ys))) (Fin 8); y_max = fadd (Fin (Max (set ys))) (Fin 8);
              l = fmax (fsub x_max x_min) (fsub y_max y_min)
          in if feq l (fsub x_max x_min)
             then \<lparr>xlim = (x_min, x_max),
                   ylim = (fsub y_min (fhalf (fsub l (fsub y_max y_min))),
                           fadd y_max (fhalf (fsub l (fsub y_max y_min))))\<rparr>
             else \<lparr>xlim = (fsub x_min (fhalf (fsub l (fsub x_max x_min))),
                           fadd x_max (fhalf (fsub l (fsub x_max x_min)))),
                   ylim = (y_min, y_max)\<rparr>)"
  unfolding set_viewport_def py_min_total[OF assms(1)] py_max_total[OF assms(1)]
    py_min_total[OF assms(2)] py_max_total[OF assms(2)]
  by (simp only: sum.case Let_def)


lemma set_viewport_total:
  assumes "xs \<noteq> []" and "ys \<noteq> []"
  shows "\<exists>v. set_viewport xs ys = Inr v"
  unfolding set_viewport_unfold[OF assms] by blast










section \<open>Every well-formed frame is composed\<close>

lemma stack_all_total:
  "(\<forall>(a, b) \<in> set ps. length a = length b) \<Longrightarrow> stack_all ps = Inr (map (\<lambda>(a, b). zip a b) ps)"
  by (induction ps rule: stack_all.induct) (auto simp: column_stack_def)

lemma multiline_total:
  assumes "\<forall>(a, b) \<in> set (zip xs ys). length a = length b"
  shows "multiline xs ys c = Inr \<lparr>segments = map (\<lambda>(a, b). zip a b) (zip xs ys), array = c\<rparr>"
  by (simp add: multiline_def stack_all_total[OF assms])

lemma probe_total:
  assumes "obs k = None"
  shows "\<exists>r. probe obs 0 [] [] [] = Some r"
proof -
  define k0 where "k0 = (LEAST j. obs j = None)"
  have n: "obs k0 = None" unfolding k0_def using assms by (rule LeastI)
  have b: "\<forall>t<k0. obs t \<noteq> None" unfolding k0_def using not_less_Least by blast
  show ?thesis using probe_from[OF b n, of 0 "[]" "[]" "[]"] by simp
qed

lemma draw_obstacles_total:
  "(\<forall>obs \<in> set os. \<exists>k. obs k = None) \<Longrightarrow> \<exists>ds. draw_obstacles i os = Some ds"
proof (induction os)
  case Nil
  show ?case by simp
next
  case (Cons ob rest)
  then obtain k where "ob k = None" by auto
  then obtain r where r: "probe ob 0 [] [] [] = Some r" using probe_total by blast
  have "\<exists>d. draw_obstacle i ob = Some d"
    by (cases r) (simp add: draw_obstacle_def r Let_def)
  moreover have "\<exists>ds. draw_obstacles i rest = Some ds" using Cons by simp
  ultimately show ?case by auto
qed

lemma compose_frame_total:
  assumes "t < length fpl" and "t \<le> length tlist" and "sl \<noteq> []"
    and "\<forall>fp \<in> set (fpl ! t). length (fp_x fp) = length (fp_y fp)"
    and "\<forall>obs \<in> set (dynamic_obstacles sc). \<exists>k. obs k = None"
  shows "\<exists>f. compose_frame sc sl fpl t tlist = Some (Inr f, tlist @ [0])"
proof -
  have wf: "\<forall>(a, b) \<in> set (zip (map (\<lambda>fp. tl (fp_x fp)) (fpl ! t)) (map (\<lambda>fp. tl (fp_y fp)) (fpl ! t))).
              length a = length b"
    using assms(4) by (auto simp: zip_same_maps)
  obtain v where v: "set_viewport (x_coords_of sl) (y_coords_of sl) = Inr v"
    using set_viewport_total[of "x_coords_of sl" "y_coords_of sl"] assms(3) by auto
  obtain ds where ds: "draw_obstacles t (dynamic_obstacles sc) = Some ds"
    using draw_obstacles_total[OF assms(5)] by blast
  show ?thesis
    using assms(1,2)
    by (simp add: compose_frame_def Let_def multiline_total[OF wf] v ds)
qed

section \<open>Viewport of an export run\<close>




section \<open>Ego trajectory: past and future\<close>

text \<open>
  C3, as stated, fails at decision step 0: the past polyline is empty, while the claim
  puts the state of index 0 into it.
\<close>

theorem ego_split_counterexample:
  "compose_frame demo_scenario demo_trajectory demo_fplist 0 [] = Some (Inr demo_frame0, [0])
   \<and> position (demo_trajectory ! 0) = (0, 0)
   \<and> ego_past demo_frame0 = ([], [])
   \<and> ego_past demo_frame0 \<noteq> ([fst (position (demo_trajectory ! 0))], [snd (position (demo_trajectory ! 0))])"
  using demo_compose0 by (simp add: demo_frame0_def demo_trajectory_def st_def)

text \<open>
  C3, amended. In the frame of decision step \<open>t\<close> the past polyline holds the positions of
  the states at the indices \<open>0..t-1\<close> (index \<open>t\<close> excluded) and the future polyline those
  at the indices \<open>t..T\<close>; the two share no index and together are the whole trajectory.
\<close>

theorem ego_split:
  assumes "compose_frame sc sl fpl t tlist = Some (Inr f, tlist')"
  shows "ego_past f = (map (\<lambda>j. fst (position (sl ! j))) [0..<min t (length sl)],
                       map (\<lambda>j. snd (position (sl ! j))) [0..<min t (length sl)])
       \<and> ego_future f = (map (\<lambda>j. fst (position (sl ! j))) [t..<length sl],
                         map (\<lambda>j. snd (position (sl ! j))) [t..<length sl])
       \<and> fst (ego_past f) @ fst (ego_future f) = map (\<lambda>s. fst (position s)) sl
       \<and> snd (ego_past f) @ snd (ego_future f) = map (\<lambda>s. snd (position s)) sl"
proof -
  have tk: "take t sl = map ((!) sl) [0..<min t (length sl)]"
    by (rule nth_equalityI) simp_all
  have dr: "drop t sl = map ((!) sl) [t..<length sl]"
    by (rule nth_equalityI) simp_all
  have p: "ego_past f = (map (\<lambda>s. fst (position s)) (take t sl), map (\<lambda>s. snd (position s)) (take t sl))"
    by (rule compose_frameD(7)[OF assms])
  have q: "ego_future f = (map (\<lambda>s. fst (position s)) (drop t sl), map (\<lambda>s. snd (position s)) (drop t sl))"
    by (rule compose_frameD(8)[OF assms])
  have j: "fst (ego_past f) @ fst (ego_future f) = map (\<lambda>s. fst (position s)) sl"
          "snd (ego_past f) @ snd (ego_future f) = map (\<lambda>s. snd (position s)) sl"
    unfolding p q by (simp_all add: map_append[symmetric] del: map_append)
  show ?thesis using j unfolding p q by (subst tk, subst dr, subst tk, subst dr) (simp add: o_def)
qed

theorem ego_split_witness:
  "compose_frame demo_scenario demo_trajectory demo_fplist 1 [0] = Some (Inr demo_frame1, [0, 0])
   \<and> ego_past demo_frame1 = ([0], [0]) \<and> ego_future demo_frame1 = ([10, 20], [2, 4])"
  using ego_split[OF demo_compose1] demo_compose1
  by (simp add: demo_frame1_def)

section \<open>Candidate overlay\<close>

lemma zip_tl: "zip (tl a) (tl b) = tl (zip a b)"
  by (cases a; cases b) simp_all

lemma two_points:
  assumes "length a = 2" and "length b = 2"
  shows "zip (tl a) (tl b) = [(a ! 1, b ! 1)]"
proof -
  obtain a0 a1 where a: "a = [a0, a1]"
    using assms(1) by (cases a; cases "tl a"; cases "tl (tl a)") auto
  obtain b0 b1 where b: "b = [b0, b1]"
    using assms(2) by (cases b; cases "tl b"; cases "tl (tl b)") auto
  show ?thesis by (simp add: a b)
qed

text \<open>
  C10. In every composed frame the overlay has one polyline per candidate of that step,
  built from the candidate's samples from index 1 on: it is the candidate's point list
  without its first point, and for a candidate of exactly two points it is the single
  point of index 1.
\<close>

theorem overlay_skips_first_point:
  assumes "compose_frame sc sl fpl t tlist = Some (Inr f, tlist')"
  shows "length (segments (overlay f)) = length (fpl ! t)
       \<and> (\<forall>j<length (fpl ! t).
             segments (overlay f) ! j = zip (tl (fp_x (fpl ! t ! j))) (tl (fp_y (fpl ! t ! j)))
           \<and> segments (overlay f) ! j = tl (zip (fp_x (fpl ! t ! j)) (fp_y (fpl ! t ! j)))
           \<and> (length (fp_x (fpl ! t ! j)) = 2 \<and> length (fp_y (fpl ! t ! j)) = 2
                \<longrightarrow> segments (overlay f) ! j = [(fp_x (fpl ! t ! j) ! 1, fp_y (fpl ! t ! j) ! 1)]))"
  using overlay_segments(1)[OF assms]
  by (auto simp: zip_tl[symmetric] two_points)

theorem overlay_skips_first_point_witness:
  "compose_frame demo_scenario demo_trajectory demo_fplist 0 [] = Some (Inr demo_frame0, [0])
   \<and> (1::nat) < length (demo_fplist ! 0)
   \<and> length (fp_x (demo_fplist ! 0 ! 1)) = 2 \<and> length (fp_y (demo_fplist ! 0 ! 1)) = 2
   \<and> fp_x (demo_fplist ! 0 ! 0) = [0, 5, 10] \<and> fp_y (demo_fplist ! 0 ! 0) = [0, 1, 2]
   \<and> segments (overlay demo_frame0) ! 0 = [(5, 1), (10, 2)]
   \<and> segments (overlay demo_frame0) ! 1 = [(6, 3)]"
  using overlay_skips_first_point[OF demo_compose0] demo_compose0
  by (simp add: demo_fplist_def demo_path_a_def demo_path_b_def)

section \<open>Colour scale of one call\<close>

lemma clim_nonempty:
  assumes "array lc \<noteq> []"
  shows "clim lc = Some (Min (set (array lc)), Max (set (array lc)))"
  using assms by (cases "array lc") (simp_all add: clim_def fold_min_Min fold_max_Max del: set_simps)

lemma color_value_range:
  assumes "array lc \<noteq> []" and "j < length (array lc)"
  shows "\<exists>u. color_value lc j = Some u \<and> 0 \<le> u \<and> u \<le> 1
           \<and> (Min (set (array lc)) < Max (set (array lc)) \<longrightarrow>
                u = (array lc ! j - Min (set (array lc)))
                      / (Max (set (array lc)) - Min (set (array lc))))"
proof -
  have lo: "Min (set (array lc)) \<le> array lc ! j" using assms(2) by simp
  have hi: "array lc ! j \<le> Max (set (array lc))" using assms(2) by simp
  show ?thesis
  proof (cases "Min (set (array lc)) = Max (set (array lc))")
    case True
    then show ?thesis using assms by (simp add: color_value_def clim_nonempty)
  next
    case False
    then have lt: "Min (set (array lc)) < Max (set (array lc))" using lo hi by linarith
    have "0 \<le> (array lc ! j - Min (set (array lc))) / (Max (set (array lc)) - Min (set (array lc)))"
      using lo lt by simp
    moreover have "(array lc ! j - Min (set (array lc))) / (Max (set (array lc)) - Min (set (array lc))) \<le> 1"
      using hi lt by (simp add: divide_le_eq)
    ultimately show ?thesis using assms False by (simp add: color_value_def clim_nonempty)
  qed
qed

text \<open>
  C4. A call of the colorizer with a non-empty cost list, one cost per path and paths
  whose \<open>x\<close> and \<open>y\<close> agree in length, returns a collection with one polyline per path,
  made of that path's points, whose scalar is the path's cost; the colour limits are the
  minimum and the maximum of the costs of that call, and every path's normalised colour
  lies in \<open>[0, 1]\<close> and is linear in its cost between them. Every well-formed frame
  with at least one candidate is composed, its overlay is that call on the candidates of
  its own step, and its colorbar spans the minimum and maximum cost of those candidates
  alone.
\<close>

theorem colorizer_call_local:
  "(c \<noteq> [] \<and> length xs = length c \<and> length ys = length c
      \<and> (\<forall>j<length c. length (xs ! j) = length (ys ! j)) \<longrightarrow>
      (\<exists>lc. multiline xs ys c = Inr lc
         \<and> length (segments lc) = length c
         \<and> array lc = c
         \<and> clim lc = Some (Min (set c), Max (set c))
         \<and> (\<forall>j<length c.
               segments lc ! j = zip (xs ! j) (ys ! j)
             \<and> (\<exists>u. color_value lc j = Some u \<and> 0 \<le> u \<and> u \<le> 1
                    \<and> (Min (set c) < Max (set c) \<longrightarrow>
                          u = (c ! j - Min (set c)) / (Max (set c) - Min (set c)))))))
   \<and> (t < length fpl \<and> fpl ! t \<noteq> [] \<and> t \<le> length tlist \<and> sl \<noteq> []
        \<and> (\<forall>fp \<in> set (fpl ! t). length (fp_x fp) = length (fp_y fp))
        \<and> (\<forall>obs \<in> set (dynamic_obstacles sc). \<exists>k. obs k = None) \<longrightarrow>
        (\<exists>f. compose_frame sc sl fpl t tlist = Some (Inr f, tlist @ [0])
           \<and> multiline (map (\<lambda>fp. tl (fp_x fp)) (fpl ! t)) (map (\<lambda>fp. tl (fp_y fp)) (fpl ! t))
                (map cost_final (fpl ! t)) = Inr (overlay f)
           \<and> length (segments (overlay f)) = length (fpl ! t)
           \<and> array (overlay f) = map cost_final (fpl ! t)
           \<and> colorbar f = Some (Min (cost_final ` set (fpl ! t)), Max (cost_final ` set (fpl ! t)))))"
proof (intro conjI impI)
  assume a: "c \<noteq> [] \<and> length xs = length c \<and> length ys = length c
      \<and> (\<forall>j<length c. length (xs ! j) = length (ys ! j))"
  then have ne: "c \<noteq> []" and lx: "length xs = length c" and ly: "length ys = length c"
    and eq: "\<forall>j<length c. length (xs ! j) = length (ys ! j)" by simp_all
  have wf: "\<forall>(a, b) \<in> set (zip xs ys). length a = length b"
    using eq lx ly by (auto simp: set_zip)
  define lc where "lc = \<lparr>segments = map (\<lambda>(a, b). zip a b) (zip xs ys), array = c\<rparr>"
  have m: "multiline xs ys c = Inr lc" unfolding lc_def by (rule multiline_total[OF wf])
  have arr: "array lc = c" by (simp add: lc_def)
  have seg: "segments lc = map (\<lambda>(a, b). zip a b) (zip xs ys)" by (simp add: lc_def)
  have 1: "length (segments lc) = length c" using seg lx ly by simp
  have 2: "clim lc = Some (Min (set c), Max (set c))" using clim_nonempty[of lc] ne arr by simp
  have 3: "\<forall>j<length c.
          segments lc ! j = zip (xs ! j) (ys ! j)
        \<and> (\<exists>u. color_value lc j = Some u \<and> 0 \<le> u \<and> u \<le> 1
               \<and> (Min (set c) < Max (set c) \<longrightarrow> u = (c ! j - Min (set c)) / (Max (set c) - Min (set c))))"
  proof (intro allI impI conjI)
    fix j assume j: "j < length c"
    show "segments lc ! j = zip (xs ! j) (ys ! j)" using seg lx ly j by simp
    show "\<exists>u. color_value lc j = Some u \<and> 0 \<le> u \<and> u \<le> 1
               \<and> (Min (set c) < Max (set c) \<longrightarrow> u = (c ! j - Min (set c)) / (Max (set c) - Min (set c)))"
      using color_value_range[of lc j] ne j arr by simp
  qed
  show "\<exists>lc. multiline xs ys c = Inr lc
         \<and> length (segments lc) = length c
         \<and> array lc = c
         \<and> clim lc = Some (Min (set c), Max (set c))
         \<and> (\<forall>j<length c.
               segments lc ! j = zip (xs ! j) (ys ! j)
             \<and> (\<exists>u. color_value lc j = Some u \<and> 0 \<le> u \<and> u \<le> 1
                    \<and> (Min (set c) < Max (set c) \<longrightarrow>
                          u = (c ! j - Min (set c)) / (Max (set c) - Min (set c)))))"
    using m 1 arr 2 3 by blast
next
  assume b: "t < length fpl \<and> fpl ! t \<noteq> [] \<and> t \<le> length tlist \<and> sl \<noteq> []
        \<and> (\<forall>fp \<in> set (fpl ! t). length (fp_x fp) = length (fp_y fp))
        \<and> (\<forall>obs \<in> set (dynamic_obstacles sc). \<exists>k. obs k = None)"
  then have ne: "fpl ! t \<noteq> []" by simp
  from b obtain f where cf: "compose_frame sc sl fpl t tlist = Some (Inr f, tlist @ [0])"
    using compose_frame_total[of t fpl tlist sl sc] by blast
  have ov: "multiline (map (\<lambda>fp. tl (fp_x fp)) (fpl ! t)) (map (\<lambda>fp. tl (fp_y fp)) (fpl ! t))
           (map cost_final (fpl ! t)) = Inr (overlay f)"
    by (rule compose_frameD(5)[OF cf])
  have arr: "array (overlay f) = map cost_final (fpl ! t)" by (rule overlay_segments(2)[OF cf])
  have len: "length (segments (overlay f)) = length (fpl ! t)"
    using overlay_segments(1)[OF cf] by simp
  have cb: "colorbar f = Some (Min (cost_final ` set (fpl ! t)), Max (cost_final ` set (fpl ! t)))"
    using compose_frameD(6)[OF cf] clim_nonempty[of "overlay f"] arr ne by simp
  show "\<exists>f. compose_frame sc sl fpl t tlist = Some (Inr f, tlist @ [0])
           \<and> multiline (map (\<lambda>fp. tl (fp_x fp)) (fpl ! t)) (map (\<lambda>fp. tl (fp_y fp)) (fpl ! t))
                (map cost_final (fpl ! t)) = Inr (overlay f)
           \<and> length (segments (overlay f)) = length (fpl ! t)
           \<and> array (overlay f) = map cost_final (fpl ! t)
           \<and> colorbar f = Some (Min (cost_final ` set (fpl ! t)), Max (cost_final ` set (fpl ! t)))"
    using cf ov len arr cb by blast
qed

theorem colorizer_call_local_witness:
  "[1, 5 :: rat] \<noteq> []
   \<and> multiline [ [5, 10], [6]] [ [1, 2], [3]] [1, 5]
       = Inr \<lparr>segments = [ [(5, 1), (10, 2)], [(6, 3)]], array = [1, 5]\<rparr>
   \<and> clim \<lparr>segments = [ [(5, 1), (10, 2)], [(6, 3)]], array = [1, 5]\<rparr> = Some (1, 5)
   \<and> demo_fplist ! 0 \<noteq> []
   \<and> dynamic_obstacles demo_scenario = [demo_obstacle] \<and> demo_obstacle 3 = None
   \<and> compose_frame demo_scenario demo_trajectory demo_fplist 0 [] = Some (Inr demo_frame0, [0])
   \<and> colorbar demo_frame0 = Some (1, 5)"
proof -
  note w = colorizer_call_local[of "[1, 5]" "[ [5, 10], [6]]" "[ [1, 2], [3]]"
      0 demo_fplist "[]" demo_trajectory demo_scenario]
  have h1: "[1, 5 :: rat] \<noteq> [] \<and> length [ [5, 10], [6 :: rat]] = length [1, 5 :: rat]
      \<and> length [ [1, 2], [3 :: rat]] = length [1, 5 :: rat]
      \<and> (\<forall>j<length [1, 5 :: rat]. length ([ [5, 10], [6 :: rat]] ! j) = length ([ [1, 2], [3 :: rat]] ! j))"
    by (simp add: less_Suc_eq)
  have ob: "\<forall>obs \<in> set (dynamic_obstacles demo_scenario). obs 3 = None"
    by (simp add: demo_scenario_def demo_obstacle_def)
  have h2: "0 < length demo_fplist \<and> demo_fplist ! 0 \<noteq> [] \<and> 0 \<le> length ([] :: rat list)
        \<and> demo_trajectory \<noteq> []
        \<and> (\<forall>fp \<in> set (demo_fplist ! 0). length (fp_x fp) = length (fp_y fp))
        \<and> (\<forall>obs \<in> set (dynamic_obstacles demo_scenario). \<exists>k. obs k = None)"
    using ob by (auto simp: demo_fplist_def demo_trajectory_def demo_path_a_def demo_path_b_def)
  from w h1 obtain lc where lc: "multiline [ [5, 10], [6]] [ [1, 2], [3]] [1, 5] = Inr lc"
    and cl: "clim lc = Some (Min (set [1, 5]), Max (set [1, 5]))" by blast
  have m: "multiline [ [5, 10], [6]] [ [1, 2], [3]] [1, 5]
     = Inr \<lparr>segments = [ [(5, 1), (10, 2)], [(6, 3)]], array = [1, 5]\<rparr>"
    by (simp add: multiline_def column_stack_def)
  have c1: "clim \<lparr>segments = [ [(5, 1), (10, 2)], [(6, 3)]], array = [1, 5]\<rparr> = Some (1, 5)"
    using lc cl m by simp
  from w h2 obtain f where f: "compose_frame demo_scenario demo_trajectory demo_fplist 0 [] = Some (Inr f, [] @ [0])"
    and cb: "colorbar f = Some (Min (cost_final ` set (demo_fplist ! 0)), Max (cost_final ` set (demo_fplist ! 0)))"
    by blast
  have "f = demo_frame0" using f demo_compose0 by simp
  then have c2: "colorbar demo_frame0 = Some (1, 5)"
    using cb by (simp add: demo_fplist_def demo_path_a_def demo_path_b_def)
  have ob': "dynamic_obstacles demo_scenario = [demo_obstacle] \<and> demo_obstacle 3 = None"
    by (simp add: demo_scenario_def demo_obstacle_def)
  show ?thesis using h1 h2 m c1 ob' demo_compose0 c2 by blast
qed

section \<open>Validation gate: the two collision flags\<close>

lemma collide_add:
  "collide h (add_collision_object cc ob) co = (collide h cc co \<or> h ob co)"
  by (auto simp: collide_def add_collision_object_def list_ex_iff)

text \<open>
  C5. The gate reports two flags. The first is the query of the ego object on the checker
  that holds the scenario's registered obstacles only; the second is the query of the same
  ego object on the same checker after the road boundary was added to it. Whenever the
  first flag is true, so is the second.
\<close>

theorem two_collision_flags:
  "res_collision (validate ext sc sl)
     = collide (hit ext) (create_collision_checker sc) (create_collision_object ext sl)
   \<and> res_outofbound (validate ext sc sl)
     = collide (hit ext) (add_collision_object (create_collision_checker sc) (road_boundary sc))
         (create_collision_object ext sl)
   \<and> objects (create_collision_checker sc) = collision_objects sc
   \<and> objects (add_collision_object (create_collision_checker sc) (road_boundary sc))
     = collision_objects sc @ [road_boundary sc]
   \<and> (res_collision (validate ext sc sl) \<longrightarrow> res_outofbound (validate ext sc sl))"
  by (simp add: validate_def Let_def collide_add)
     (simp add: create_collision_checker_def add_collision_object_def)

theorem two_collision_flags_witness:
  "res_collision (validate demo_ext demo_scenario demo_trajectory)
   \<and> res_outofbound (validate demo_ext demo_scenario demo_trajectory)"
proof -
  have h: "res_collision (validate demo_ext demo_scenario demo_trajectory)"
    by (simp add: validate_def Let_def collide_def create_collision_checker_def demo_ext_def
        demo_scenario_def demo_trajectory_def)
  show ?thesis using h two_collision_flags[of demo_ext demo_scenario demo_trajectory] by blast
qed

section \<open>Animation encoder: frames in, frames out\<close>

lemma save_gif_error: "save_gif images = Inl e \<Longrightarrow> images = [] \<and> e = IndexError"
  by (cases images) (auto simp: save_gif_def)




lemma compose_framesD:
  "compose_frames sc sl fpl idx tlist images = Some (Inr res, tlist') \<Longrightarrow>
     tlist' = tlist @ replicate (length idx) 0
   \<and> (\<exists>fs. res = images @ fs \<and> length fs = length idx
          \<and> (\<forall>j<length idx.
                compose_frame sc sl fpl (idx ! j) (tlist @ replicate j 0)
                  = Some (Inr (fs ! j), tlist @ replicate (Suc j) 0)))"
proof (induction idx arbitrary: tlist images)
  case Nil
  then show ?case by simp
next
  case (Cons i rest)
  from Cons.prems obtain f b where
    f0: "compose_frame sc sl fpl i tlist = Some (Inr f, b)"
    and r0: "compose_frames sc sl fpl rest b (images @ [f]) = Some (Inr res, tlist')"
    by (auto split: option.splits sum.splits)
  have b: "b = tlist @ [0]" by (rule compose_frameD(2)[OF f0])
  have f: "compose_frame sc sl fpl i tlist = Some (Inr f, tlist @ [0])" using f0 b by simp
  have r: "compose_frames sc sl fpl rest (tlist @ [0]) (images @ [f]) = Some (Inr res, tlist')"
    using r0 b by simp
  from Cons.IH[OF r] obtain fs where
    t: "tlist' = (tlist @ [0]) @ replicate (length rest) 0"
    and fs: "res = (images @ [f]) @ fs" "length fs = length rest"
    and nth: "\<forall>j<length rest.
                compose_frame sc sl fpl (rest ! j) ((tlist @ [0]) @ replicate j 0)
                  = Some (Inr (fs ! j), (tlist @ [0]) @ replicate (Suc j) 0)"
    by blast
  have rep: "(tlist @ [0]) @ replicate n 0 = tlist @ replicate (Suc n) (0::rat)" for n
    by (simp add: replicate_app_Cons_same)
  have "\<forall>j<length (i # rest).
                compose_frame sc sl fpl ((i # rest) ! j) (tlist @ replicate j 0)
                  = Some (Inr ((f # fs) ! j), tlist @ replicate (Suc j) 0)"
  proof (intro allI impI)
    fix j assume j: "j < length (i # rest)"
    show "compose_frame sc sl fpl ((i # rest) ! j) (tlist @ replicate j 0)
                  = Some (Inr ((f # fs) ! j), tlist @ replicate (Suc j) 0)"
    proof (cases j)
      case 0
      then show ?thesis using f by simp
    next
      case (Suc m)
      then have "m < length rest" using j by simp
      then show ?thesis using nth Suc by (simp only: rep nth_Cons_Suc)
    qed
  qed
  then show ?case using t fs by (simp only: rep) auto
qed

lemma demo_run:
  "try_body demo_ext demo_scenario demo_plan
     = Some ([], Inr \<lparr>validation = \<lparr>res_collision = True, res_outofbound = True, feasible = False\<rparr>,
                      gif = \<lparr>gif_frames = [demo_frame0, demo_frame1], duration = 100, loop = 0\<rparr>,
                      final_time_list = [0, 0]\<rparr>)"
  by code_simp

lemma save_gif_nonempty:
  "images \<noteq> [] \<Longrightarrow> save_gif images = Inr \<lparr>gif_frames = images, duration = 100, loop = 0\<rparr>"
  by (cases images) (simp_all add: save_gif_def)

lemma save_gifD:
  "save_gif images = Inr g \<Longrightarrow> images \<noteq> [] \<and> g = \<lparr>gif_frames = images, duration = 100, loop = 0\<rparr>"
  by (cases images) (auto simp: save_gif_def)

lemma try_bodyD:
  assumes "try_body ext sc plan = Some (out, Inr r)"
  shows "\<exists>sl. ego_vehicle_trajectory plan = Some sl
           \<and> compose_frames sc sl (fplist plan) [0..<length (fplist plan)] (time_list plan) []
               = Some (Inr (gif_frames (gif r)), final_time_list r)
           \<and> gif_frames (gif r) \<noteq> []
           \<and> gif r = \<lparr>gif_frames = gif_frames (gif r), duration = 100, loop = 0\<rparr>
           \<and> validation r = validate ext sc sl \<and> out = []"
  using assms
  by (auto simp: try_body_def Let_def split: option.splits sum.splits dest!: save_gifD)

text \<open>
  C8. Encoding a non-empty sequence of frames keeps every frame, in the order given, at
  100 ms per frame and loop count 0 (forever). In a finished run the animation has exactly
  one frame per decision step, the frame at position \<open>j\<close> being the one composed for step
  \<open>j\<close>.
\<close>

theorem animation_frames:
  "(images \<noteq> [] \<longrightarrow> save_gif images = Inr \<lparr>gif_frames = images, duration = 100, loop = 0\<rparr>)
   \<and> (try_body ext sc plan = Some (out, Inr r) \<longrightarrow>
        (\<exists>sl. ego_vehicle_trajectory plan = Some sl
           \<and> fplist plan \<noteq> []
           \<and> length (gif_frames (gif r)) = length (fplist plan)
           \<and> (\<forall>j<length (fplist plan).
                 compose_frame sc sl (fplist plan) j (time_list plan @ replicate j 0)
                   = Some (Inr (gif_frames (gif r) ! j), time_list plan @ replicate (Suc j) 0)
               \<and> time_begin (gif_frames (gif r) ! j) = j)
           \<and> duration (gif r) = 100 \<and> loop (gif r) = 0))"
proof (intro conjI impI)
  assume "images \<noteq> []"
  then show "save_gif images = Inr \<lparr>gif_frames = images, duration = 100, loop = 0\<rparr>"
    by (rule save_gif_nonempty)
next
  assume a: "try_body ext sc plan = Some (out, Inr r)"
  from try_bodyD[OF a] obtain sl where
    sl: "ego_vehicle_trajectory plan = Some sl"
    and cf: "compose_frames sc sl (fplist plan) [0..<length (fplist plan)] (time_list plan) []
               = Some (Inr (gif_frames (gif r)), final_time_list r)"
    and ne: "gif_frames (gif r) \<noteq> []"
    and g: "gif r = \<lparr>gif_frames = gif_frames (gif r), duration = 100, loop = 0\<rparr>"
    by blast
  from compose_framesD[OF cf] obtain fs where
    fs: "gif_frames (gif r) = [] @ fs" "length fs = length [0..<length (fplist plan)]"
    and nth: "\<forall>j<length [0..<length (fplist plan)].
                compose_frame sc sl (fplist plan) ([0..<length (fplist plan)] ! j)
                    (time_list plan @ replicate j 0)
                  = Some (Inr (fs ! j), time_list plan @ replicate (Suc j) 0)"
    by blast
  have len: "length (gif_frames (gif r)) = length (fplist plan)" using fs by simp
  have each: "\<forall>j<length (fplist plan).
                 compose_frame sc sl (fplist plan) j (time_list plan @ replicate j 0)
                   = Some (Inr (gif_frames (gif r) ! j), time_list plan @ replicate (Suc j) 0)
               \<and> time_begin (gif_frames (gif r) ! j) = j"
  proof (intro allI impI)
    fix j assume j: "j < length (fplist plan)"
    have c: "compose_frame sc sl (fplist plan) j (time_list plan @ replicate j 0)
                   = Some (Inr (gif_frames (gif r) ! j), time_list plan @ replicate (Suc j) 0)"
      using nth j fs by simp
    show "compose_frame sc sl (fplist plan) j (time_list plan @ replicate j 0)
                   = Some (Inr (gif_frames (gif r) ! j), time_list plan @ replicate (Suc j) 0)
               \<and> time_begin (gif_frames (gif r) ! j) = j"
      using c compose_frameD(4)[OF c] by simp
  qed
  have nonempty: "fplist plan \<noteq> []" using ne len by auto
  have d: "duration (gif r) = 100" "loop (gif r) = 0" by (subst g, simp)+
  show "\<exists>sl. ego_vehicle_trajectory plan = Some sl
           \<and> fplist plan \<noteq> []
           \<and> length (gif_frames (gif r)) = length (fplist plan)
           \<and> (\<forall>j<length (fplist plan).
                 compose_frame sc sl (fplist plan) j (time_list plan @ replicate j 0)
                   = Some (Inr (gif_frames (gif r) ! j), time_list plan @ replicate (Suc j) 0)
               \<and> time_begin (gif_frames (gif r) ! j) = j)
           \<and> duration (gif r) = 100 \<and> loop (gif r) = 0"
    using sl nonempty len each d by blast
qed

theorem animation_frames_witness:
  "[demo_frame0, demo_frame1] \<noteq> []
   \<and> save_gif [demo_frame0, demo_frame1]
       = Inr \<lparr>gif_frames = [demo_frame0, demo_frame1], duration = 100, loop = 0\<rparr>
   \<and> try_body demo_ext demo_scenario demo_plan
       = Some ([], Inr \<lparr>validation = \<lparr>res_collision = True, res_outofbound = True, feasible = False\<rparr>,
                        gif = \<lparr>gif_frames = [demo_frame0, demo_frame1], duration = 100, loop = 0\<rparr>,
                        final_time_list = [0, 0]\<rparr>)
   \<and> length (fplist demo_plan) = 2
   \<and> time_begin demo_frame0 = 0 \<and> time_begin demo_frame1 = 1"
proof -
  have ne: "[demo_frame0, demo_frame1] \<noteq> []" by simp
  have l: "length (fplist demo_plan) = 2" by (simp add: demo_plan_def demo_fplist_def)
  note w = animation_frames[of "[demo_frame0, demo_frame1]" demo_ext demo_scenario demo_plan "[]"
      "\<lparr>validation = \<lparr>res_collision = True, res_outofbound = True, feasible = False\<rparr>,
        gif = \<lparr>gif_frames = [demo_frame0, demo_frame1], duration = 100, loop = 0\<rparr>,
        final_time_list = [0, 0]\<rparr>"]
  have s: "save_gif [demo_frame0, demo_frame1]
       = Inr \<lparr>gif_frames = [demo_frame0, demo_frame1], duration = 100, loop = 0\<rparr>"
    using w ne by blast
  have a: "\<forall>j<2. time_begin ([demo_frame0, demo_frame1] ! j) = j"
    using w demo_run l by auto
  have "time_begin demo_frame0 = 0 \<and> time_begin demo_frame1 = 1"
    using a[rule_format, of 0] a[rule_format, of 1] by simp
  then show ?thesis using ne s demo_run l by blast
qed

section \<open>Frame composition and the time list\<close>

text \<open>
  C2, as stated, fails: composing frame 0 changes the time list (from \<open>[]\<close> to \<open>[0]\<close>),
  and frame 1 reads it: composed after frame 0 it is a frame, composed from the untouched
  time list it is an \<open>IndexError\<close>.
\<close>

theorem frame_purity_counterexample:
  "compose_frame demo_scenario demo_trajectory demo_fplist 0 [] = Some (Inr demo_frame0, [0])
   \<and> snd (the (compose_frame demo_scenario demo_trajectory demo_fplist 0 [])) \<noteq> []
   \<and> compose_frame demo_scenario demo_trajectory demo_fplist 1 [] = Some (Inl IndexError, [0])
   \<and> compose_frame demo_scenario demo_trajectory demo_fplist 1 [0] = Some (Inr demo_frame1, [0, 0])
   \<and> fst (the (compose_frame demo_scenario demo_trajectory demo_fplist 1
                     (snd (the (compose_frame demo_scenario demo_trajectory demo_fplist 0 [])))))
       \<noteq> fst (the (compose_frame demo_scenario demo_trajectory demo_fplist 1 []))"
  using demo_compose0 demo_compose1_alone demo_compose1 by simp

lemma compose_frame_again:
  assumes "compose_frame sc sl fpl t tlist = Some (Inr f, tlist')"
  shows "compose_frame sc sl fpl t tlist' = Some (Inr f, tlist' @ [0])"
proof -
  have t: "tlist' = tlist @ [0]" and i: "t < length tlist'"
    using compose_frameD(2,3)[OF assms] by simp_all
  have n: "(tlist' @ [0]) ! t = tlist' ! t" using i by (simp add: nth_append)
  show ?thesis
    using assms i n unfolding t
    by (auto simp: compose_frame_def Let_def nth_append split: if_splits sum.splits option.splits)
qed

lemma compose_frame_title_only:
  assumes "compose_frame sc sl fpl t tlist = Some (Inr f, tlist')"
    and "compose_frame sc sl fpl t tlist2 = Some (Inr g, tlist2')"
  shows "g = f\<lparr>frame_title := frame_title g\<rparr>"
  using assms
  by (auto simp: compose_frame_def Let_def split: if_splits sum.splits option.splits)

text \<open>
  C2, amended. Composing frame \<open>t\<close> is a function of \<open>t\<close>, the scenario, the ego
  trajectory, the candidates and the time list as it stands. It appends one 0 to the time
  list and changes nothing else; composing the same frame again, from the list it left,
  yields the identical frame; the time list decides nothing in a frame but the time in its
  title, which is the planner's entry of index \<open>t\<close> when there is one and 0 otherwise.
\<close>

theorem frame_effect:
  assumes "compose_frame sc sl fpl t tlist = Some (Inr f, tlist')"
  shows "tlist' = tlist @ [0]
       \<and> compose_frame sc sl fpl t tlist' = Some (Inr f, tlist' @ [0])
       \<and> (\<forall>tlist2 g tlist2'. compose_frame sc sl fpl t tlist2 = Some (Inr g, tlist2')
            \<longrightarrow> g = f\<lparr>frame_title := frame_title g\<rparr>)
       \<and> title_time (frame_title f) = round3 (if t < length tlist then tlist ! t else 0)"
proof -
  have a: "tlist' = tlist @ [0]" by (rule compose_frameD(2)[OF assms])
  have b: "compose_frame sc sl fpl t tlist' = Some (Inr f, tlist' @ [0])"
    by (rule compose_frame_again[OF assms])
  have c: "\<forall>tlist2 g tlist2'. compose_frame sc sl fpl t tlist2 = Some (Inr g, tlist2')
            \<longrightarrow> g = f\<lparr>frame_title := frame_title g\<rparr>"
    using compose_frame_title_only[OF assms] by blast
  have i: "t < length tlist'" by (rule compose_frameD(3)[OF assms])
  have "tlist' ! t = (if t < length tlist then tlist ! t else 0)"
    using i unfolding a by (auto simp: nth_append less_Suc_eq)
  then have d: "title_time (frame_title f) = round3 (if t < length tlist then tlist ! t else 0)"
    using compose_frameD(11)[OF assms] by simp
  from a b c d show ?thesis by blast
qed

theorem frame_effect_witness:
  "compose_frame demo_scenario demo_trajectory demo_fplist 0 [] = Some (Inr demo_frame0, [0])
   \<and> compose_frame demo_scenario demo_trajectory demo_fplist 0 [0] = Some (Inr demo_frame0, [0, 0])
   \<and> title_time (frame_title demo_frame0) = 0"
  using frame_effect[OF demo_compose0] demo_compose0
  by (simp add: round3_def)

section \<open>Errors of the scenario run\<close>

lemma stack_all_error: "stack_all ps = Inl e \<Longrightarrow> e = ValueError"
  by (induction ps arbitrary: e rule: stack_all.induct)
     (auto simp: column_stack_def split: sum.splits if_splits)

lemma multiline_error: "multiline xs ys c = Inl e \<Longrightarrow> e = ValueError"
  by (auto simp: multiline_def split: sum.splits dest: stack_all_error)

lemma set_viewport_error: "set_viewport xs ys = Inl e \<Longrightarrow> e = ValueError"
  by (auto simp: set_viewport_def py_min_def py_max_def Let_def split: sum.splits list.splits)

lemma compose_frame_error:
  "compose_frame sc sl fpl i tlist \<noteq> Some (Inl RuntimeError, tlist')"
  by (auto simp: compose_frame_def Let_def split: if_splits sum.splits option.splits
           dest: multiline_error set_viewport_error)

lemma compose_frames_error:
  "compose_frames sc sl fpl idx tlist images \<noteq> Some (Inl RuntimeError, tlist')"
proof (induction idx arbitrary: tlist images)
  case Nil
  show ?case by simp
next
  case (Cons i rest)
  show ?case
    using Cons.IH compose_frame_error[of sc sl fpl i tlist tlist']
    by (auto split: option.splits sum.splits)
qed

lemma try_body_runtime_error:
  "(\<exists>out. try_body ext sc plan = Some (out, Inl RuntimeError)) = (ego_vehicle_trajectory plan = None)"
  by (auto simp: try_body_def Let_def split: option.splits sum.splits
           simp: compose_frames_error dest: save_gif_error)

lemma try_body_verdicts:
  assumes "ego_vehicle_trajectory plan = Some sl"
  shows "case try_body ext sc plan of
           None \<Rightarrow> try_body ext' sc plan = None
         | Some (out, Inl e) \<Rightarrow> try_body ext' sc plan = Some (out, Inl e)
         | Some (out, Inr r) \<Rightarrow>
             validation r = validate ext sc sl
           \<and> try_body ext' sc plan = Some (out, Inr (r\<lparr>validation := validate ext' sc sl\<rparr>))"
  using assms
  by (auto simp: try_body_def Let_def split: option.splits sum.splits)

text \<open>
  C6, as stated, fails: a run whose planner returned a trajectory and no decision step
  raises \<open>UnboundLocalError\<close>, which the handler does not catch.
\<close>

theorem run_error_counterexample:
  "ego_vehicle_trajectory (demo_plan\<lparr>fplist := []\<rparr>) = Some demo_trajectory
   \<and> planning_example demo_ext demo_scenario (demo_plan\<lparr>fplist := []\<rparr>) = Some ([], Inl UnboundLocalError)"
  by (simp add: demo_plan_def planning_example_def try_body_def save_gif_def Let_def)

text \<open>
  C6, amended. The run raises \<open>RuntimeError\<close> exactly when the planner returned no
  trajectory; that exception is caught at the top level, where the run prints its two
  messages and returns, so it never leaves the run. The verdicts of the validation checks
  are data: whatever the collision and feasibility checks answer, the run ends the same
  way, with the same messages, and differs in the recorded verdicts only.
\<close>

theorem run_error:
  "((\<exists>out. try_body ext sc plan = Some (out, Inl RuntimeError)) = (ego_vehicle_trajectory plan = None))
   \<and> (ego_vehicle_trajectory plan = None \<longrightarrow>
        planning_example ext sc plan
          = Some ([''No ego vehicle trajectory found'',
                   ''    DEU_Flensburg-1_1_T-1.xml not feasible, proceding to next file!''],
                  Inr None))
   \<and> (\<forall>out. planning_example ext sc plan \<noteq> Some (out, Inl RuntimeError))
   \<and> (\<forall>sl ext'. ego_vehicle_trajectory plan = Some sl \<longrightarrow>
        (case try_body ext sc plan of
           None \<Rightarrow> try_body ext' sc plan = None
         | Some (out, Inl e) \<Rightarrow> try_body ext' sc plan = Some (out, Inl e)
         | Some (out, Inr r) \<Rightarrow>
             validation r = validate ext sc sl
           \<and> try_body ext' sc plan = Some (out, Inr (r\<lparr>validation := validate ext' sc sl\<rparr>))))"
proof (intro conjI)
  show "(\<exists>out. try_body ext sc plan = Some (out, Inl RuntimeError)) = (ego_vehicle_trajectory plan = None)"
    by (rule try_body_runtime_error)
  show "ego_vehicle_trajectory plan = None \<longrightarrow>
        planning_example ext sc plan
          = Some ([''No ego vehicle trajectory found'',
                   ''    DEU_Flensburg-1_1_T-1.xml not feasible, proceding to next file!''],
                  Inr None)"
    by (simp add: planning_example_def try_body_def)
  show "\<forall>out. planning_example ext sc plan \<noteq> Some (out, Inl RuntimeError)"
    by (auto simp: planning_example_def split: option.splits sum.splits error.splits)
  show "\<forall>sl ext'. ego_vehicle_trajectory plan = Some sl \<longrightarrow>
        (case try_body ext sc plan of
           None \<Rightarrow> try_body ext' sc plan = None
         | Some (out, Inl e) \<Rightarrow> try_body ext' sc plan = Some (out, Inl e)
         | Some (out, Inr r) \<Rightarrow>
             validation r = validate ext sc sl
           \<and> try_body ext' sc plan = Some (out, Inr (r\<lparr>validation := validate ext' sc sl\<rparr>)))"
    using try_body_verdicts by blast
qed

theorem run_error_witness:
  "ego_vehicle_trajectory (demo_plan\<lparr>ego_vehicle_trajectory := None\<rparr>) = None
   \<and> planning_example demo_ext demo_scenario (demo_plan\<lparr>ego_vehicle_trajectory := None\<rparr>)
       = Some ([''No ego vehicle trajectory found'',
                ''    DEU_Flensburg-1_1_T-1.xml not feasible, proceding to next file!''],
               Inr None)
   \<and> ego_vehicle_trajectory demo_plan = Some demo_trajectory
   \<and> validate demo_ext demo_scenario demo_trajectory
       = \<lparr>res_collision = True, res_outofbound = True, feasible = False\<rparr>
   \<and> try_body (demo_ext\<lparr>hit := \<lambda>ob co. False\<rparr>) demo_scenario demo_plan
       = Some ([], Inr \<lparr>validation = \<lparr>res_collision = False, res_outofbound = False, feasible = False\<rparr>,
                        gif = \<lparr>gif_frames = [demo_frame0, demo_frame1], duration = 100, loop = 0\<rparr>,
                        final_time_list = [0, 0]\<rparr>)"
proof -
  have n: "ego_vehicle_trajectory (demo_plan\<lparr>ego_vehicle_trajectory := None\<rparr>) = None" by simp
  have s: "ego_vehicle_trajectory demo_plan = Some demo_trajectory" by (simp add: demo_plan_def)
  have v: "validate (demo_ext\<lparr>hit := \<lambda>ob co. False\<rparr>) demo_scenario demo_trajectory
             = \<lparr>res_collision = False, res_outofbound = False, feasible = False\<rparr>"
    by (simp add: validate_def Let_def collide_def list_ex_iff demo_ext_def)
  have a: "planning_example demo_ext demo_scenario (demo_plan\<lparr>ego_vehicle_trajectory := None\<rparr>)
       = Some ([''No ego vehicle trajectory found'',
                ''    DEU_Flensburg-1_1_T-1.xml not feasible, proceding to next file!''],
               Inr None)"
    using run_error[of demo_ext demo_scenario "demo_plan\<lparr>ego_vehicle_trajectory := None\<rparr>"] n
    by blast
  have b: "validation \<lparr>validation = \<lparr>res_collision = True, res_outofbound = True, feasible = False\<rparr>,
                      gif = \<lparr>gif_frames = [demo_frame0, demo_frame1], duration = 100, loop = 0\<rparr>,
                      final_time_list = [0, 0]\<rparr> = validate demo_ext demo_scenario demo_trajectory
     \<and> try_body (demo_ext\<lparr>hit := \<lambda>ob co. False\<rparr>) demo_scenario demo_plan
         = Some ([], Inr (\<lparr>validation = \<lparr>res_collision = True, res_outofbound = True, feasible = False\<rparr>,
                      gif = \<lparr>gif_frames = [demo_frame0, demo_frame1], duration = 100, loop = 0\<rparr>,
                      final_time_list = [0, 0]\<rparr>\<lparr>validation :=
                         validate (demo_ext\<lparr>hit := \<lambda>ob co. False\<rparr>) demo_scenario demo_trajectory\<rparr>))"
    using run_error[of demo_ext demo_scenario demo_plan, THEN conjunct2, THEN conjunct2, THEN conjunct2,
        rule_format, OF s, of "demo_ext\<lparr>hit := \<lambda>ob co. False\<rparr>"]
    by (simp add: demo_run)
  show ?thesis using n a s b v by simp
qed

end
